theory Spec2Isabelle
  imports Main "HOL-Library.Word" "HOL-Library.Sublist"
begin

section \<open>Strings of the runtime\<close>

text \<open>
  A JavaScript string is a sequence of UTF-16 code units, and \<open>length\<close> counts code
  units. String literals of \<open>bot.js\<close> are ASCII; \<open>js\<close> turns such a literal into its
  code units.
\<close>

type_synonym code_unit = "16 word"
type_synonym jsstring = "code_unit list"

definition js :: "string \<Rightarrow> jsstring" where
  "js s = map (\<lambda>c. of_nat (of_char c)) s"

text \<open>
  \<open>slice(start, end)\<close> of strings and of arrays: a negative index counts from the end,
  both indices are clamped to the sequence, and an empty range gives the empty
  sequence. Nothing is thrown.
\<close>

definition slice :: "'a list \<Rightarrow> int \<Rightarrow> int \<Rightarrow> 'a list" where
  "slice str start end =
     (let len = int (length str);
          from = (if start < 0 then max (len + start) 0 else min start len);
          to = (if end < 0 then max (len + end) 0 else min end len)
      in if to \<le> from then [] else take (nat (to - from)) (drop (nat from) str))"

text \<open>
  \<open>s.includes(t)\<close>: whether \<open>t\<close> occurs in \<open>s\<close> at some index, searched from index 0.
\<close>

fun startsWith :: "'a list \<Rightarrow> 'a list \<Rightarrow> bool" where
  "startsWith s [] = True"
| "startsWith [] (y # ys) = False"
| "startsWith (x # xs) (y # ys) = (x = y \<and> startsWith xs ys)"

fun includes_js :: "'a list \<Rightarrow> 'a list \<Rightarrow> bool" where
  "includes_js [] t = startsWith [] t"
| "includes_js (x # xs) t = (startsWith (x # xs) t \<or> includes_js xs t)"

text \<open>
  The code units that the regular expression class \<open>\s\<close> matches and that \<open>trim()\<close>
  removes: the white space and line terminator code points of ECMAScript.
\<close>

definition isWhiteSpace :: "code_unit \<Rightarrow> bool" where
  "isWhiteSpace c \<longleftrightarrow>
     c \<in> set [0x09, 0x0A, 0x0B, 0x0C, 0x0D, 0x20, 0xA0, 0x1680,
              0x2028, 0x2029, 0x202F, 0x205F, 0x3000, 0xFEFF]
     \<or> (0x2000 \<le> c \<and> c \<le> 0x200A)"

definition trim :: "jsstring \<Rightarrow> jsstring" where
  "trim s = rev (dropWhile isWhiteSpace (rev (dropWhile isWhiteSpace s)))"

text \<open>
  \<open>s.replace(/\s+/g, rep)\<close>: every maximal run of white space becomes one copy of
  \<open>rep\<close>.
\<close>

function replaceWhitespace :: "jsstring \<Rightarrow> jsstring \<Rightarrow> jsstring" where
  "replaceWhitespace rep [] = []"
| "replaceWhitespace rep (c # cs) =
     (if isWhiteSpace c then rep @ replaceWhitespace rep (dropWhile isWhiteSpace cs)
      else c # replaceWhitespace rep cs)"
  by pat_completeness auto
termination
  by (relation "measure (\<lambda>(rep, s). length s)")
     (auto simp: less_Suc_eq_le length_dropWhile_le)

text \<open>
  \<open>toLowerCase()\<close> follows the Unicode case tables of the runtime, which are not part
  of the repository: the functions below take it as the parameter \<open>toLowerCase\<close>. On a
  string of ASCII code units it is the following map, used where a concrete input is
  evaluated.
\<close>

definition toLowerCase_ascii :: "jsstring \<Rightarrow> jsstring" where
  "toLowerCase_ascii = map (\<lambda>c. if 0x41 \<le> c \<and> c \<le> 0x5A then c + 0x20 else c)"

subsection \<open>encodeURIComponent\<close>

text \<open>
  The runtime's \<open>encodeURIComponent\<close>: letters, digits and the marks
  \<^verbatim>\<open>- _ . ! ~ * ' ( )\<close> are kept; every other code point is written as the
  percent-escaped bytes of its UTF-8 encoding; an unpaired surrogate throws a URIError.
\<close>

datatype failure = URIError | RequestFailed | EmbedRefused

definition uriUnescaped :: "code_unit \<Rightarrow> bool" where
  "uriUnescaped c \<longleftrightarrow>
     (0x41 \<le> c \<and> c \<le> 0x5A) \<or> (0x61 \<le> c \<and> c \<le> 0x7A) \<or> (0x30 \<le> c \<and> c \<le> 0x39)
     \<or> c \<in> set [0x2D, 0x5F, 0x2E, 0x21, 0x7E, 0x2A, 0x27, 0x28, 0x29]"

definition isLeadingSurrogate :: "code_unit \<Rightarrow> bool" where
  "isLeadingSurrogate c \<longleftrightarrow> 0xD800 \<le> c \<and> c \<le> 0xDBFF"

definition isTrailingSurrogate :: "code_unit \<Rightarrow> bool" where
  "isTrailingSurrogate c \<longleftrightarrow> 0xDC00 \<le> c \<and> c \<le> 0xDFFF"

definition surrogatePairToCodePoint :: "code_unit \<Rightarrow> code_unit \<Rightarrow> nat" where
  "surrogatePairToCodePoint lead trail =
     (unat lead - 0xD800) * 0x400 + (unat trail - 0xDC00) + 0x10000"

definition utf8 :: "nat \<Rightarrow> nat list" where
  "utf8 cp =
     (if cp < 0x80 then [cp]
      else if cp < 0x800 then [0xC0 + cp div 0x40, 0x80 + cp mod 0x40]
      else if cp < 0x10000 then
        [0xE0 + cp div 0x1000, 0x80 + cp div 0x40 mod 0x40, 0x80 + cp mod 0x40]
      else
        [0xF0 + cp div 0x40000, 0x80 + cp div 0x1000 mod 0x40,
         0x80 + cp div 0x40 mod 0x40, 0x80 + cp mod 0x40])"

definition hexDigit :: "nat \<Rightarrow> code_unit" where
  "hexDigit n = (if n < 10 then 0x30 + of_nat n else 0x37 + of_nat n)"

definition percentEscape :: "nat \<Rightarrow> jsstring" where
  "percentEscape byte = js ''%'' @ [hexDigit (byte div 16), hexDigit (byte mod 16)]"

definition escapeCodePoint :: "nat \<Rightarrow> jsstring" where
  "escapeCodePoint cp = concat (map percentEscape (utf8 cp))"

definition prepend :: "jsstring \<Rightarrow> failure + jsstring \<Rightarrow> failure + jsstring" where
  "prepend s r = (case r of Inl e \<Rightarrow> Inl e | Inr t \<Rightarrow> Inr (s @ t))"

fun encodeURIComponent :: "jsstring \<Rightarrow> failure + jsstring" where
  "encodeURIComponent [] = Inr []"
| "encodeURIComponent [c] =
     (if uriUnescaped c then Inr [c]
      else if isLeadingSurrogate c \<or> isTrailingSurrogate c then Inl URIError
      else Inr (escapeCodePoint (unat c)))"
| "encodeURIComponent (c # d # ds) =
     (if uriUnescaped c then prepend [c] (encodeURIComponent (d # ds))
      else if isTrailingSurrogate c then Inl URIError
      else if isLeadingSurrogate c then
        (if isTrailingSurrogate d
         then prepend (escapeCodePoint (surrogatePairToCodePoint c d)) (encodeURIComponent ds)
         else Inl URIError)
      else prepend (escapeCodePoint (unat c)) (encodeURIComponent (d # ds)))"

section \<open>truncateString (bot.js, lines 14-16)\<close>

text \<open>
  \<^verbatim>\<open>return str.length > maxLen ? str.slice(0, maxLen - 3) + '...' : str;\<close>
\<close>

definition truncateString :: "jsstring \<Rightarrow> int \<Rightarrow> jsstring" where
  "truncateString str maxLen =
     (if int (length str) > maxLen then slice str 0 (maxLen - 3) @ js ''...'' else str)"

section \<open>The search URLs (bot.js, lines 60, 69 and 85)\<close>

definition omdbUrl :: "jsstring \<Rightarrow> jsstring \<Rightarrow> failure + jsstring" where
  "omdbUrl omdbApiKey mediaTitle =
     prepend (js ''http://www.omdbapi.com/?apikey='' @ omdbApiKey @ js ''&t='')
       (encodeURIComponent mediaTitle)"

definition primewireUrl :: "jsstring \<Rightarrow> failure + jsstring" where
  "primewireUrl mediaTitle =
     prepend (js ''https://primewire.tf/search/'')
       (encodeURIComponent (replaceWhitespace (js ''-'') mediaTitle))"

text \<open>
  \<open>s.replace(/([()])/g, callback)\<close>: every parenthesis is replaced by what the callback
  returns for it. The callback receives the matched text as its first argument (the
  further arguments are ignored by \<open>encodeURIComponent\<close>), and what it throws is thrown
  by \<open>replace\<close>.
\<close>

fun replaceParens :: "(jsstring \<Rightarrow> failure + jsstring) \<Rightarrow> jsstring \<Rightarrow> failure + jsstring" where
  "replaceParens callback [] = Inr []"
| "replaceParens callback (c # cs) =
     (if c = 0x28 \<or> c = 0x29
      then (case callback [c] of
              Inl e \<Rightarrow> Inl e
            | Inr r \<Rightarrow> prepend r (replaceParens callback cs))
      else prepend [c] (replaceParens callback cs))"

definition fmoviesKeyword :: "jsstring \<Rightarrow> failure + jsstring" where
  "fmoviesKeyword mediaTitle =
     (case replaceParens encodeURIComponent (replaceWhitespace (js ''+'') mediaTitle) of
        Inl e \<Rightarrow> Inl e
      | Inr s \<Rightarrow> encodeURIComponent s)"

definition fmoviesUrl :: "jsstring \<Rightarrow> failure + jsstring" where
  "fmoviesUrl mediaTitle =
     prepend (js ''https://en.fmoviesz-to.com/filter?keyword='') (fmoviesKeyword mediaTitle)"

section \<open>The link extractor (bot.js, lines 74-82 and 90-98)\<close>

text \<open>
  What a selector query of the HTML library gives the loop: \<open>attr('href')\<close> is the
  attribute of the first matched element, or \<open>undefined\<close> (\<open>None\<close>) when nothing matches
  or the element has no such attribute; \<open>text()\<close> is the text of the matched elements,
  the empty string when nothing matches. A loaded document is modelled by what the
  source's selector yields for each position \<open>i\<close> of \<open>nth-of-type(i)\<close>.
\<close>

record selection =
  attr_href :: "jsstring option"
  sel_text :: jsstring

type_synonym document = "nat \<Rightarrow> selection"

record result_link =
  title :: jsstring
  link :: jsstring

text \<open>A value inside a template literal: \<open>undefined\<close> is written as the word.\<close>

definition template :: "jsstring option \<Rightarrow> jsstring" where
  "template v = (case v of None \<Rightarrow> js ''undefined'' | Some s \<Rightarrow> s)"

text \<open>The body of the loop; a string is truthy when it is not empty.\<close>

definition scanPosition :: "jsstring \<Rightarrow> selection \<Rightarrow> result_link list \<Rightarrow> result_link list" where
  "scanPosition base mediaLinkElement links =
     (let mediaLink = base @ template (attr_href mediaLinkElement);
          mediaTitle = trim (sel_text mediaLinkElement)
      in if mediaLink \<noteq> [] \<and> mediaTitle \<noteq> []
         then links @ [\<lparr>title = truncateString mediaTitle 100, link = mediaLink\<rparr>]
         else links)"

function scanLoop ::
  "jsstring \<Rightarrow> document \<Rightarrow> nat \<Rightarrow> nat \<Rightarrow> result_link list \<Rightarrow> result_link list" where
  "scanLoop base doc i bound links =
     (if i < bound then scanLoop base doc (i + 1) bound (scanPosition base (doc i) links)
      else links)"
  by pat_completeness auto
termination
  by (relation "measure (\<lambda>(base, doc, i, bound, links). bound - i)") auto

declare scanLoop.simps [simp del]

definition primewireLinks :: "document \<Rightarrow> result_link list" where
  "primewireLinks doc = scanLoop (js ''https://primewire.tf'') doc 2 22 []"

definition fmoviesLinks :: "document \<Rightarrow> result_link list" where
  "fmoviesLinks doc = scanLoop (js ''https://en.fmoviesz-to.com'') doc 1 21 []"

section \<open>The relevance filter and the cap (bot.js, lines 101-102)\<close>

text \<open>
  \<^verbatim>\<open>links.filter(link => link.title.toLowerCase().includes(mediaTitle.toLowerCase())
    || mediaData.Title.toLowerCase().includes(link.title.toLowerCase())).slice(0, 5)\<close>
\<close>

definition relevant ::
  "(jsstring \<Rightarrow> jsstring) \<Rightarrow> jsstring \<Rightarrow> jsstring \<Rightarrow> result_link \<Rightarrow> bool" where
  "relevant toLowerCase mediaTitle Title l \<longleftrightarrow>
     includes_js (toLowerCase (title l)) (toLowerCase mediaTitle)
     \<or> includes_js (toLowerCase Title) (toLowerCase (title l))"

definition relevantLinks ::
  "(jsstring \<Rightarrow> jsstring) \<Rightarrow> jsstring \<Rightarrow> jsstring \<Rightarrow> result_link list \<Rightarrow> result_link list" where
  "relevantLinks toLowerCase mediaTitle Title links =
     filter (relevant toLowerCase mediaTitle Title) links"

definition filteredLinks ::
  "(jsstring \<Rightarrow> jsstring) \<Rightarrow> jsstring \<Rightarrow> jsstring \<Rightarrow> result_link list \<Rightarrow> result_link list" where
  "filteredLinks toLowerCase mediaTitle Title links =
     slice (relevantLinks toLowerCase mediaTitle Title links) 0 5"

section \<open>The command handler (bot.js, lines 44-130)\<close>

text \<open>
  The record of the metadata API, at the shape the API documents: every field read by
  the handler is present and is a string (\<open>Ratings\<close> a list of source and value).
\<close>

record rating =
  Source :: jsstring
  Value :: jsstring

record mediaData =
  Response :: jsstring
  Title :: jsstring
  Year :: jsstring
  imdbRating :: jsstring
  Ratings :: "rating list"
  Plot :: jsstring
  Poster :: jsstring

record embed =
  embed_title :: jsstring
  embed_color :: nat
  embed_description :: jsstring
  embed_thumbnail :: jsstring
  embed_fields :: "(jsstring \<times> jsstring) list"

text \<open>
  What the handler does to the outside, in order: the requests it sends, the reply it
  gives, and what it logs when the \<open>try\<close> block catches a failure.
\<close>

datatype effect = HttpGet jsstring | Reply jsstring | ReplyEmbed embed | ConsoleError failure

text \<open>
  The collaborators: a request either fails (the promise is rejected, or the HTML does
  not load) or gives the decoded record, respectively the loaded document. The embed
  builder of the chat library validates what it is given (lengths of the texts, the form
  of the thumbnail URL) and throws when it refuses it; its rules are not part of the
  repository, so \<open>embed_accepted\<close> says which embeds it accepts.
\<close>

record environment =
  axios_json :: "jsstring \<Rightarrow> failure + mediaData"
  axios_html :: "jsstring \<Rightarrow> failure + document"
  embed_accepted :: "embed \<Rightarrow> bool"

record interaction =
  isCommand :: bool
  commandName :: jsstring
  option_title :: "jsstring option"

definition newline :: jsstring where
  "newline = [0x0A]"

fun join :: "jsstring \<Rightarrow> jsstring list \<Rightarrow> jsstring" where
  "join sep [] = []"
| "join sep [x] = x"
| "join sep (x # y # ys) = x @ sep @ join sep (y # ys)"

definition rottenTomatoes :: "rating list \<Rightarrow> jsstring" where
  "rottenTomatoes ratings =
     (case find (\<lambda>rating. Source rating = js ''Rotten Tomatoes'') ratings of
        None \<Rightarrow> js ''N/A''
      | Some rating \<Rightarrow> if Value rating = [] then js ''N/A'' else Value rating)"

definition resultsField :: "jsstring \<Rightarrow> result_link list \<Rightarrow> jsstring \<times> jsstring" where
  "resultsField name links =
     (if length links > 0
      then (name, join newline (map (\<lambda>l. js ''['' @ title l @ js '']('' @ link l @ js '')'') links))
      else (name, js ''No results found.''))"

definition buildEmbed :: "mediaData \<Rightarrow> result_link list \<Rightarrow> result_link list \<Rightarrow> embed" where
  "buildEmbed mediaData filteredPrimewireLinks filteredFmoviesLinks =
     \<lparr>embed_title = Title mediaData,
      embed_color = 0x0099FF,
      embed_description =
        js ''Release Year: '' @ Year mediaData @ newline @
        js ''IMDB Rating: '' @ imdbRating mediaData @ newline @
        js ''Rotten Tomatoes Rating: '' @ rottenTomatoes (Ratings mediaData) @ newline @ newline @
        Plot mediaData,
      embed_thumbnail = Poster mediaData,
      embed_fields =
        [resultsField (js ''Top Primewire Results:'') filteredPrimewireLinks,
         resultsField (js ''Top Fmovies Results:'') filteredFmoviesLinks]\<rparr>"

definition caught :: "failure \<Rightarrow> effect list" where
  "caught error =
     [ConsoleError error, Reply (js ''An error occurred while fetching media data.'')]"

definition scrapeFmovies ::
  "(jsstring \<Rightarrow> jsstring) \<Rightarrow> environment \<Rightarrow> jsstring \<Rightarrow> mediaData \<Rightarrow> result_link list \<Rightarrow> effect list" where
  "scrapeFmovies toLowerCase env mediaTitle mediaData pwLinks =
     (case fmoviesUrl mediaTitle of
        Inl e \<Rightarrow> caught e
      | Inr url \<Rightarrow> HttpGet url #
          (case axios_html env url of
             Inl e \<Rightarrow> caught e
           | Inr doc \<Rightarrow>
               (let embed = buildEmbed mediaData
                      (filteredLinks toLowerCase mediaTitle (Title mediaData) pwLinks)
                      (filteredLinks toLowerCase mediaTitle (Title mediaData) (fmoviesLinks doc))
                in if embed_accepted env embed then [ReplyEmbed embed]
                   else caught EmbedRefused)))"

definition scrapePrimewire ::
  "(jsstring \<Rightarrow> jsstring) \<Rightarrow> environment \<Rightarrow> jsstring \<Rightarrow> mediaData \<Rightarrow> effect list" where
  "scrapePrimewire toLowerCase env mediaTitle mediaData =
     (case primewireUrl mediaTitle of
        Inl e \<Rightarrow> caught e
      | Inr url \<Rightarrow> HttpGet url #
          (case axios_html env url of
             Inl e \<Rightarrow> caught e
           | Inr doc \<Rightarrow> scrapeFmovies toLowerCase env mediaTitle mediaData (primewireLinks doc)))"

definition watch ::
  "(jsstring \<Rightarrow> jsstring) \<Rightarrow> jsstring \<Rightarrow> environment \<Rightarrow> jsstring \<Rightarrow> effect list" where
  "watch toLowerCase omdbApiKey env mediaTitle =
     (case omdbUrl omdbApiKey mediaTitle of
        Inl e \<Rightarrow> caught e
      | Inr url \<Rightarrow> HttpGet url #
          (case axios_json env url of
             Inl e \<Rightarrow> caught e
           | Inr mediaData \<Rightarrow>
               if Response mediaData = js ''False'' then [Reply (js ''Media not found.'')]
               else scrapePrimewire toLowerCase env mediaTitle mediaData))"

definition interactionCreate ::
  "(jsstring \<Rightarrow> jsstring) \<Rightarrow> jsstring \<Rightarrow> environment \<Rightarrow> interaction \<Rightarrow> effect list" where
  "interactionCreate toLowerCase omdbApiKey env i =
     (if \<not> isCommand i then []
      else if commandName i = js ''ping'' then [Reply (js ''Pong!'')]
      else if commandName i = js ''watch'' then
        (case option_title i of
           None \<Rightarrow> [Reply (js ''Please provide a movie or TV show title.'')]
         | Some mediaTitle \<Rightarrow>
             if mediaTitle = [] then [Reply (js ''Please provide a movie or TV show title.'')]
             else watch toLowerCase omdbApiKey env mediaTitle)
      else [])"

section \<open>Properties of truncateString\<close>

lemma length_js [simp]: "length (js s) = length s"
  by (simp add: js_def)

lemma slice_prefix:
  assumes "0 \<le> e" and "e \<le> int (length str)"
  shows "slice str 0 e = take (nat e) str"
  using assms by (auto simp: slice_def Let_def)

lemma truncateString_short:
  "int (length s) \<le> n \<Longrightarrow> truncateString s n = s"
  by (simp add: truncateString_def)

lemma truncateString_long:
  assumes "3 \<le> n" and "n < int (length s)"
  shows "truncateString s n = take (nat (n - 3)) s @ js ''...''"
  using assms by (simp add: truncateString_def slice_prefix)

lemma length_truncateString_long:
  assumes "3 \<le> n" and "n < int (length s)"
  shows "int (length (truncateString s n)) = n"
  using assms by (simp add: truncateString_long)

lemma length_truncateString_100: "length (truncateString s 100) \<le> 100"
proof (cases "length s \<le> 100")
  case True
  then show ?thesis by (simp add: truncateString_short)
next
  case False
  then show ?thesis using length_truncateString_long [of 100 s] by simp
qed

lemma truncateString_nonempty: "s \<noteq> [] \<Longrightarrow> truncateString s maxLen \<noteq> []"
  by (simp add: truncateString_def js_def)

text \<open>
  Claim C5. At the maximum length 100, a string of at most 100 code units is returned
  unchanged; a longer one is cut to exactly 100 code units, the last three of which are
  the ellipsis \<open>...\<close>.
\<close>

theorem truncateString_100:
  "(length s \<le> 100 \<longrightarrow> truncateString s 100 = s) \<and>
   (100 < length s \<longrightarrow>
      length (truncateString s 100) = 100 \<and> suffix (js ''...'') (truncateString s 100))"
proof (intro conjI impI)
  assume "length s \<le> 100"
  then show "truncateString s 100 = s"
    by (simp add: truncateString_short)
next
  assume long: "100 < length s"
  then have eq: "truncateString s 100 = take 97 s @ js ''...''"
    using truncateString_long [of 100 s] by simp
  from long show "length (truncateString s 100) = 100"
    by (simp add: eq)
  show "suffix (js ''...'') (truncateString s 100)"
    by (simp add: eq suffix_def)
qed

theorem truncateString_100_witness:
  "length (replicate 101 (0x61 :: code_unit)) = 101 \<and>
   length (js ''Up'') \<le> 100 \<and> truncateString (js ''Up'') 100 = js ''Up'' \<and>
   length (truncateString (replicate 101 0x61) 100) = 100 \<and>
   suffix (js ''...'') (truncateString (replicate 101 0x61) 100)"
  using truncateString_100 [of "js ''Up''"] truncateString_100 [of "replicate 101 (0x61 :: code_unit)"]
  by simp

text \<open>
  Claim C10. Truncating twice at the maximum length 100 is the same as truncating once.
\<close>

theorem truncateString_100_idem:
  "truncateString (truncateString s 100) 100 = truncateString s 100"
proof (cases "length s \<le> 100")
  case True
  then show ?thesis by (simp add: truncateString_short)
next
  case False
  then have "int (length (truncateString s 100)) = 100"
    using length_truncateString_long [of 100 s] by simp
  then show ?thesis by (simp add: truncateString_short)
qed






section \<open>Properties of the relevance filter and the cap\<close>

lemma startsWith_prefix: "startsWith s t \<longleftrightarrow> prefix t s"
  by (induction s t rule: startsWith.induct) auto

text \<open>The search of \<open>includes\<close> finds exactly the contiguous occurrences.\<close>

lemma includes_js_sublist: "includes_js s t \<longleftrightarrow> sublist t s"
proof (induction s)
  case Nil
  then show ?case by (simp add: startsWith_prefix)
next
  case (Cons x xs)
  then show ?case by (simp add: startsWith_prefix sublist_Cons_right)
qed

lemma slice_take: "0 \<le> n \<Longrightarrow> slice xs 0 n = take (nat n) xs"
  by (auto simp: slice_def Let_def min_def)

lemma filteredLinks_take:
  "filteredLinks toLowerCase mediaTitle canonicalTitle links =
     take 5 (filter (relevant toLowerCase mediaTitle canonicalTitle) links)"
  by (simp add: filteredLinks_def relevantLinks_def slice_take)

text \<open>
  Claim C1. Whatever the case folding \<open>toLowerCase\<close> is: a candidate of the list is kept
  by the filter if and only if its folded label contains the folded query title as a
  contiguous substring, or the folded canonical title contains the folded label. So a
  candidate whose label is the query title is kept, and so is one whose label is the
  canonical title.
\<close>

theorem relevance_filter:
  "(l \<in> set (relevantLinks toLowerCase mediaTitle canonicalTitle links) \<longleftrightarrow>
      l \<in> set links \<and>
      (sublist (toLowerCase mediaTitle) (toLowerCase (title l))
       \<or> sublist (toLowerCase (title l)) (toLowerCase canonicalTitle)))
   \<and> (l \<in> set links \<and> title l = mediaTitle \<longrightarrow>
        l \<in> set (relevantLinks toLowerCase mediaTitle canonicalTitle links))
   \<and> (l \<in> set links \<and> title l = canonicalTitle \<longrightarrow>
        l \<in> set (relevantLinks toLowerCase mediaTitle canonicalTitle links))"
  by (auto simp: relevantLinks_def relevant_def includes_js_sublist)

theorem relevance_filter_witness:
  "\<lparr>title = js ''Inception'', link = js ''https://primewire.tf/movie/1''\<rparr>
     \<in> set [\<lparr>title = js ''Inception'', link = js ''https://primewire.tf/movie/1''\<rparr>,
             \<lparr>title = js ''Interstellar'', link = js ''https://primewire.tf/movie/2''\<rparr>] \<and>
   title \<lparr>title = js ''Inception'', link = js ''https://primewire.tf/movie/1''\<rparr> = js ''Inception'' \<and>
   sublist (toLowerCase_ascii (js ''Inception''))
     (toLowerCase_ascii (title \<lparr>title = js ''Inception'', link = js ''https://primewire.tf/movie/1''\<rparr>)) \<and>
   \<lparr>title = js ''Inception'', link = js ''https://primewire.tf/movie/1''\<rparr>
     \<in> set (relevantLinks toLowerCase_ascii (js ''Inception'') (js ''Inception'')
         [\<lparr>title = js ''Inception'', link = js ''https://primewire.tf/movie/1''\<rparr>,
          \<lparr>title = js ''Interstellar'', link = js ''https://primewire.tf/movie/2''\<rparr>])"
  using relevance_filter [of "\<lparr>title = js ''Inception'', link = js ''https://primewire.tf/movie/1''\<rparr>"
      toLowerCase_ascii "js ''Inception''" "js ''Inception''"
      "[\<lparr>title = js ''Inception'', link = js ''https://primewire.tf/movie/1''\<rparr>,
        \<lparr>title = js ''Interstellar'', link = js ''https://primewire.tf/movie/2''\<rparr>]"]
  by simp

text \<open>
  Claim C2. The list left by the filter and the cap has at most 5 entries, whatever the
  length of the candidate list.
\<close>

theorem filteredLinks_length:
  "length (filteredLinks toLowerCase mediaTitle canonicalTitle links) \<le> 5"
  by (simp add: filteredLinks_take)

text \<open>
  Claim C3. The list left by the filter and the cap is a subsequence of the candidate
  list: the kept candidates stand in the order they had there.
\<close>

theorem filteredLinks_subseq:
  "subseq (filteredLinks toLowerCase mediaTitle canonicalTitle links) links"
proof -
  have "subseq (take 5 (filter (relevant toLowerCase mediaTitle canonicalTitle) links))
          (filter (relevant toLowerCase mediaTitle canonicalTitle) links)"
    by (metis append_take_drop_id prefix_def prefix_imp_subseq)
  also have "subseq (filter (relevant toLowerCase mediaTitle canonicalTitle) links) links"
    by simp
  finally show ?thesis by (simp add: filteredLinks_take)
qed

section \<open>Properties of the search URL of Fmovies\<close>

lemma uriUnescaped_paren: "uriUnescaped 0x28" "uriUnescaped 0x29"
  by (simp_all add: uriUnescaped_def)

text \<open>
  \<open>encodeURIComponent\<close> keeps a parenthesis, so the replacement of the parentheses
  changes nothing.
\<close>

lemma replaceParens_encodeURIComponent:
  "replaceParens encodeURIComponent s = Inr s"
proof (induction s)
  case Nil
  show ?case by simp
next
  case (Cons c cs)
  then show ?case
    by (cases "c = 0x28 \<or> c = 0x29") (auto simp: uriUnescaped_paren prepend_def)
qed

text \<open>
  Claim C8 fails on the code. For the title \<open>Up (2009)\<close> the keyword of the Fmovies
  URL is \<open>Up%2B(2009)\<close>: the parentheses are not percent-encoded (they would be \<open>%28\<close>
  and \<open>%29\<close>), and the \<open>+\<close> that replaced the white space is itself escaped by the outer
  \<open>encodeURIComponent\<close>.
\<close>

theorem fmoviesKeyword_parentheses:
  "fmoviesKeyword (js ''Up (2009)'') = Inr (js ''Up%2B(2009)'')"
  by (simp add: fmoviesKeyword_def replaceParens_encodeURIComponent js_def isWhiteSpace_def
      uriUnescaped_def isLeadingSurrogate_def isTrailingSurrogate_def prepend_def
      escapeCodePoint_def utf8_def percentEscape_def hexDigit_def)

section \<open>Properties of the link extractor\<close>

text \<open>
  What the test of the loop does ensure: every stored label is non-empty and has at
  most 100 code units.
\<close>

lemma scanPosition_labels:
  assumes "\<forall>l \<in> set links. title l \<noteq> [] \<and> length (title l) \<le> 100"
  shows "\<forall>l \<in> set (scanPosition base el links). title l \<noteq> [] \<and> length (title l) \<le> 100"
  using assms
  by (simp add: scanPosition_def Let_def length_truncateString_100 truncateString_nonempty)

lemma scanLoop_labels:
  assumes "\<forall>l \<in> set links. title l \<noteq> [] \<and> length (title l) \<le> 100"
  shows "\<forall>l \<in> set (scanLoop base doc i bound links). title l \<noteq> [] \<and> length (title l) \<le> 100"
  using assms
proof (induction base doc i bound links rule: scanLoop.induct)
  case (1 base doc i bound links)
  show ?case
  proof (cases "i < bound")
    case True
    have "\<forall>l \<in> set (scanPosition base (doc i) links). title l \<noteq> [] \<and> length (title l) \<le> 100"
      using "1.prems" by (rule scanPosition_labels)
    with "1.IH" True
    have "\<forall>l \<in> set (scanLoop base doc (i + 1) bound (scanPosition base (doc i) links)).
            title l \<noteq> [] \<and> length (title l) \<le> 100"
      by simp
    with True show ?thesis by (subst scanLoop.simps) simp
  next
    case False
    with "1.prems" show ?thesis by (subst scanLoop.simps) simp
  qed
qed

lemma primewireLinks_labels:
  "\<forall>l \<in> set (primewireLinks doc). title l \<noteq> [] \<and> length (title l) \<le> 100"
  unfolding primewireLinks_def by (rule scanLoop_labels) simp

lemma fmoviesLinks_labels:
  "\<forall>l \<in> set (fmoviesLinks doc). title l \<noteq> [] \<and> length (title l) \<le> 100"
  unfolding fmoviesLinks_def by (rule scanLoop_labels) simp

text \<open>
  Claim C4 fails on the code. The base URL is put in front of the \<open>href\<close> before the
  test \<open>mediaLink && mediaTitle\<close>, so \<open>mediaLink\<close> is never empty and the test only
  looks at the label. An anchor with a label and no \<open>href\<close> attribute gives a candidate
  whose URL is the base followed by the word \<open>undefined\<close>; one with an empty \<open>href\<close>
  gives a candidate whose URL is the bare base. (A position whose label is empty is
  skipped, as the lemmas above show.)
\<close>

theorem scan_keeps_missing_href:
  "primewireLinks (\<lambda>i. if i = 2 then \<lparr>attr_href = None, sel_text = js ''Foo''\<rparr>
                         else \<lparr>attr_href = None, sel_text = []\<rparr>)
     = [\<lparr>title = js ''Foo'', link = js ''https://primewire.tfundefined''\<rparr>] \<and>
   fmoviesLinks (\<lambda>i. if i = 1 then \<lparr>attr_href = Some [], sel_text = js ''Foo''\<rparr>
                       else \<lparr>attr_href = None, sel_text = []\<rparr>)
     = [\<lparr>title = js ''Foo'', link = js ''https://en.fmoviesz-to.com''\<rparr>]"
  by (simp add: primewireLinks_def fmoviesLinks_def scanLoop.simps scanPosition_def
      template_def trim_def truncateString_def js_def isWhiteSpace_def)

text \<open>
  Claim C9. The filter compares the truncated label. A page whose only anchor carries a
  label of 101 code units, equal to the canonical title and containing the query
  \<open>bcd\<close>, gives one candidate, with the label cut to 97 code units and the ellipsis.
  The untruncated label would pass the test; the candidate does not, and the list left
  by the filter is empty.
\<close>

theorem truncated_label_excluded:
  "100 < length (replicate 98 (0x61 :: code_unit) @ js ''bcd'') \<and>
   relevant toLowerCase_ascii (js ''bcd'') (replicate 98 0x61 @ js ''bcd'')
     \<lparr>title = replicate 98 0x61 @ js ''bcd'', link = js ''https://primewire.tf/movie''\<rparr> \<and>
   primewireLinks
     (\<lambda>i. if i = 2
          then \<lparr>attr_href = Some (js ''/movie''), sel_text = replicate 98 0x61 @ js ''bcd''\<rparr>
          else \<lparr>attr_href = None, sel_text = []\<rparr>)
     = [\<lparr>title = replicate 97 0x61 @ js ''...'', link = js ''https://primewire.tf/movie''\<rparr>] \<and>
   filteredLinks toLowerCase_ascii (js ''bcd'') (replicate 98 0x61 @ js ''bcd'')
     (primewireLinks
       (\<lambda>i. if i = 2
            then \<lparr>attr_href = Some (js ''/movie''), sel_text = replicate 98 0x61 @ js ''bcd''\<rparr>
            else \<lparr>attr_href = None, sel_text = []\<rparr>)) = []"
  by code_simp

section \<open>Properties of the command handler\<close>

text \<open>
  Claim C7. When the metadata lookup answers with a record whose \<open>Response\<close> field is
  \<open>False\<close>, the \<open>watch\<close> command sends the lookup request and nothing else, and replies
  with the text \<open>Media not found.\<close>: no request goes to either search site, and the
  reply does not depend on any link list.
\<close>

theorem watch_not_found:
  assumes "isCommand i" and "commandName i = js ''watch''"
    and "option_title i = Some mediaTitle" and "mediaTitle \<noteq> []"
    and "omdbUrl omdbApiKey mediaTitle = Inr url"
    and "axios_json env url = Inr mediaData"
    and "Response mediaData = js ''False''"
  shows "interactionCreate toLowerCase omdbApiKey env i =
           [HttpGet url, Reply (js ''Media not found.'')]"
proof -
  have "js ''watch'' \<noteq> js ''ping''"
    by (simp add: js_def)
  with assms(1-4) have "interactionCreate toLowerCase omdbApiKey env i =
      watch toLowerCase omdbApiKey env mediaTitle"
    by (simp add: interactionCreate_def)
  also from assms(5-7) have "\<dots> = [HttpGet url, Reply (js ''Media not found.'')]"
    by (simp add: watch_def)
  finally show ?thesis .
qed

lemma encodeURIComponent_example:
  "encodeURIComponent (js ''Zzzznotreal999'') = Inr (js ''Zzzznotreal999'')"
  by (simp add: js_def uriUnescaped_def prepend_def)

theorem watch_not_found_witness:
  "omdbUrl (js ''k'') (js ''Zzzznotreal999'')
     = Inr (js ''http://www.omdbapi.com/?apikey=k&t=Zzzznotreal999'') \<and>
   interactionCreate toLowerCase_ascii (js ''k'')
     \<lparr>axios_json = (\<lambda>url. Inr \<lparr>Response = js ''False'', Title = [], Year = [], imdbRating = [],
                                Ratings = [], Plot = [], Poster = []\<rparr>),
      axios_html = (\<lambda>url. Inr (\<lambda>i. \<lparr>attr_href = Some (js ''/m''), sel_text = js ''Zzzznotreal999''\<rparr>)),
      embed_accepted = (\<lambda>embed. True)\<rparr>
     \<lparr>isCommand = True, commandName = js ''watch'', option_title = Some (js ''Zzzznotreal999'')\<rparr>
   = [HttpGet (js ''http://www.omdbapi.com/?apikey=k&t=Zzzznotreal999''),
      Reply (js ''Media not found.'')]"
proof -
  have url: "omdbUrl (js ''k'') (js ''Zzzznotreal999'')
     = Inr (js ''http://www.omdbapi.com/?apikey=k&t=Zzzznotreal999'')"
    by (simp add: omdbUrl_def encodeURIComponent_example prepend_def) (simp add: js_def)
  show ?thesis
    using url watch_not_found [of
      "\<lparr>isCommand = True, commandName = js ''watch'', option_title = Some (js ''Zzzznotreal999'')\<rparr>"
      "js ''Zzzznotreal999''" "js ''k''" "js ''http://www.omdbapi.com/?apikey=k&t=Zzzznotreal999''"
      "\<lparr>axios_json = (\<lambda>url. Inr \<lparr>Response = js ''False'', Title = [], Year = [], imdbRating = [],
                                Ratings = [], Plot = [], Poster = []\<rparr>),
      axios_html = (\<lambda>url. Inr (\<lambda>i. \<lparr>attr_href = Some (js ''/m''), sel_text = js ''Zzzznotreal999''\<rparr>)),
      embed_accepted = (\<lambda>embed. True)\<rparr>"
      "\<lparr>Response = js ''False'', Title = [], Year = [], imdbRating = [],
                                Ratings = [], Plot = [], Poster = []\<rparr>" toLowerCase_ascii]
    by (simp add: js_def)
qed

end
